theory Spec2Isabelle
  imports Complex_Main
begin

section \<open>Shared data model\<close>

text \<open>
  The module \<^verbatim>\<open>la_forge/bfacs.py\<close> is embedded function by function. Exceptions are
  values: a function that can raise returns \<open>error + 'a\<close> with \<open>Inl\<close> for the exception.
  A finite floating-point value is idealised as the real number it stands for: rounding
  is not modelled. The non-finite values are constructors of their own. Leaving the range
  of the doubles is modelled in \<^verbatim>\<open>log10_bf\<close>, whose exponential and squares raise on it,
  and not in the array arithmetic of the other functions.
\<close>

datatype error =
    ValueError
  | IndexError
  | ZeroDivisionError
  | OverflowError
  | NegativeStdDev
  | AutocorrError
  | AccessorError

datatype npfloat = Fin real | PosInf | NegInf | NaN

instantiation npfloat :: zero
begin
definition zero_npfloat :: npfloat where "zero_npfloat = Fin 0"
instance ..
end

text \<open>Sequencing: an exception raised by the first step is the result of the whole.\<close>

definition on_ok :: "error + 'a \<Rightarrow> ('a \<Rightarrow> error + 'b) \<Rightarrow> error + 'b" where
  "on_ok r f = (case r of Inl e \<Rightarrow> Inl e | Inr x \<Rightarrow> f x)"

text \<open>
  A two-dimensional array: its rows, and its column count (kept apart so that the shapes
  \<open>(0, c)\<close> and \<open>(r, 0)\<close> stay distinct, as they are for \<^verbatim>\<open>numpy\<close>).
\<close>

record 'a ndarray =
  ncols :: nat
  rows :: "'a list list"

definition shape :: "'a ndarray \<Rightarrow> nat \<times> nat" where
  "shape M = (length (rows M), ncols M)"

definition well_shaped :: "'a ndarray \<Rightarrow> bool" where
  "well_shaped M = list_all (\<lambda>row. length row = ncols M) (rows M)"

definition entry :: "'a ndarray \<Rightarrow> nat \<Rightarrow> nat \<Rightarrow> 'a" where
  "entry M r c = rows M ! r ! c"

text \<open>\<^verbatim>\<open>int(x)\<close> on a float: truncation towards zero.\<close>

definition py_int :: "real \<Rightarrow> int" where
  "py_int x = (if 0 \<le> x then \<lfloor>x\<rfloor> else \<lceil>x\<rceil>)"

section \<open>Floating-point values in the Bayes-factor combiner\<close>















section \<open>The Bayes-factor combiner \<^verbatim>\<open>log10_bf\<close>\<close>












section \<open>External collaborators\<close>

text \<open>
  The chain accessor (\<^verbatim>\<open>Core\<close>, \<^verbatim>\<open>SlicesCore\<close>, \<^verbatim>\<open>HyperModelCore\<close>) is used through two
  members only: the ordered list \<^verbatim>\<open>params\<close> and the lookup
  \<^verbatim>\<open>get_param(name, thin_by=1)\<close>, which may raise.
\<close>

record 'p core =
  params :: "'p list"
  get_param :: "'p \<Rightarrow> int \<Rightarrow> error + real list"

text \<open>
  The environment gathers what the module takes from other packages:
  \<^item> \<^verbatim>\<open>emcee.autocorr.integrated_time\<close>, which returns an estimate or raises;
  \<^item> the bounded integer draw of a \<^verbatim>\<open>numpy\<close> generator: from a generator state and a
    pool size it gives an index and the next state;
  \<^item> \<^verbatim>\<open>np.random.default_rng()\<close>, which builds a fresh generator from operating-system
    entropy.
  The world is the state the module's functions can touch: the module-level generator
  \<^verbatim>\<open>rng\<close> created at line 20, and the entropy source.
\<close>

record ('g, 'e) env =
  integrated_time :: "real list \<Rightarrow> error + real"
  draw_index :: "'g \<Rightarrow> nat \<Rightarrow> nat \<times> 'g"
  default_rng :: "'e \<Rightarrow> 'g \<times> 'e"

record ('g, 'e) world =
  rng :: 'g
  os_entropy :: 'e

section \<open>Array primitives\<close>

text \<open>
  \<^verbatim>\<open>rng.choice(a, (r, c))\<close>: \<open>r\<close> rows of \<open>c\<close> entries of \<open>a\<close>, drawn one after the other
  with replacement. The index the generator gives is reduced modulo the pool size, so that
  it is a position of the pool; an empty pool raises unless no entry is asked for.
\<close>

fun draw_row :: "('g \<Rightarrow> nat \<Rightarrow> nat \<times> 'g) \<Rightarrow> 'a list \<Rightarrow> nat \<Rightarrow> 'g \<Rightarrow> 'a list \<times> 'g" where
  "draw_row dr a 0 g = ([], g)"
| "draw_row dr a (Suc k) g =
     (case dr g (length a) of (i, g1) \<Rightarrow>
        (case draw_row dr a k g1 of (xs, g2) \<Rightarrow> (a ! (i mod length a) # xs, g2)))"

fun draw_rows :: "('g \<Rightarrow> nat \<Rightarrow> nat \<times> 'g) \<Rightarrow> 'a list \<Rightarrow> nat \<Rightarrow> nat \<Rightarrow> 'g \<Rightarrow> 'a list list \<times> 'g" where
  "draw_rows dr a 0 c g = ([], g)"
| "draw_rows dr a (Suc r) c g =
     (case draw_row dr a c g of (row, g1) \<Rightarrow>
        (case draw_rows dr a r c g1 of (rs, g2) \<Rightarrow> (row # rs, g2)))"

definition rng_choice ::
  "('g \<Rightarrow> nat \<Rightarrow> nat \<times> 'g) \<Rightarrow> 'g \<Rightarrow> 'a list \<Rightarrow> nat \<times> nat \<Rightarrow> error + ('a ndarray \<times> 'g)" where
  "rng_choice dr g a shp =
     (case shp of (r, c) \<Rightarrow>
        if a = [] \<and> r * c \<noteq> 0 then Inl ValueError
        else (case draw_rows dr a r c g of (rs, g') \<Rightarrow> Inr (\<lparr>ncols = c, rows = rs\<rparr>, g')))"

definition np_zeros :: "nat \<times> nat \<Rightarrow> ('a::zero) ndarray" where
  "np_zeros shp = \<lparr>ncols = snd shp, rows = replicate (fst shp) (replicate (snd shp) 0)\<rparr>"

text \<open>\<^verbatim>\<open>M[:, ii]\<close> read, and \<^verbatim>\<open>M[:, ii] = v\<close> with its broadcast of a one-element \<open>v\<close>.\<close>

definition get_col :: "'a ndarray \<Rightarrow> nat \<Rightarrow> error + 'a list" where
  "get_col M ii = (if ii < ncols M then Inr (map (\<lambda>row. row ! ii) (rows M)) else Inl IndexError)"

definition set_col :: "'a ndarray \<Rightarrow> nat \<Rightarrow> 'a list \<Rightarrow> error + 'a ndarray" where
  "set_col M ii v =
     (if ncols M \<le> ii then Inl IndexError
      else if length v = length (rows M)
        then Inr (M\<lparr>rows := map (\<lambda>(row, x). row[ii := x]) (zip (rows M) v)\<rparr>)
      else if length v = 1
        then Inr (M\<lparr>rows := map (\<lambda>row. row[ii := hd v]) (rows M)\<rparr>)
      else Inl ValueError)"

text \<open>\<^verbatim>\<open>x[::k]\<close>: every \<open>k\<close>-th element from the first; from the last when \<open>k\<close> is negative.\<close>

fun stride :: "nat \<Rightarrow> 'a list \<Rightarrow> 'a list" where
  "stride k [] = []"
| "stride k (x # xs) = x # stride k (drop (k - 1) xs)"

definition slice_step :: "'a list \<Rightarrow> int \<Rightarrow> error + 'a list" where
  "slice_step xs k =
     (if k = 0 then Inl ValueError
      else if 0 < k then Inr (stride (nat k) xs)
      else Inr (stride (nat (- k)) (rev xs)))"

text \<open>\<^verbatim>\<open>np.mean\<close> and \<^verbatim>\<open>np.std\<close> of a one-dimensional array; both are NaN on the empty one.\<close>

definition np_mean :: "real list \<Rightarrow> npfloat" where
  "np_mean xs = (if xs = [] then NaN else Fin (sum_list xs / real (length xs)))"

definition np_std :: "real list \<Rightarrow> npfloat" where
  "np_std xs =
     (if xs = [] then NaN
      else Fin (sqrt (sum_list (map (\<lambda>x. (x - sum_list xs / real (length xs))\<^sup>2) xs)
                      / real (length xs))))"

text \<open>\<^verbatim>\<open>np.flip(M)\<close> with no axis argument reverses the order of the elements along every axis.\<close>

definition np_flip :: "'a ndarray \<Rightarrow> 'a ndarray" where
  "np_flip M = M\<lparr>rows := rev (map rev (rows M))\<rparr>"

text \<open>\<^verbatim>\<open>min\<close> of a list raises on the empty list.\<close>

definition py_min :: "nat list \<Rightarrow> error + nat" where
  "py_min xs = (case xs of [] \<Rightarrow> Inl ValueError | x # ys \<Rightarrow> Inr (fold min ys x))"

section \<open>The generic \<^verbatim>\<open>bootstrap\<close>\<close>

definition bootstrap ::
  "('g, 'e) env \<Rightarrow> ('g, 'e) world \<Rightarrow> 'p core \<Rightarrow> 'p \<Rightarrow> nat \<Rightarrow> nat
     \<Rightarrow> error + (real ndarray \<times> ('g, 'e) world)" where
  "bootstrap E w c param num_reals num_samples =
     on_ok (get_param c param 1) (\<lambda>chain.
     on_ok (integrated_time E chain) (\<lambda>t.
     let tau = py_int t in
     on_ok (get_param c param tau) (\<lambda>array.
     on_ok (rng_choice (draw_index E) (rng w) array (num_samples, num_reals)) (\<lambda>(new_array, g').
     Inr (new_array, w\<lparr>rng := g'\<rparr>)))))"

section \<open>The temperature-ladder assembler \<^verbatim>\<open>make_betalike\<close>\<close>

text \<open>The first loop (lines 70-71): the length of every chain, in parameter order.\<close>

fun chain_lengths_loop :: "'p core \<Rightarrow> 'p list \<Rightarrow> error + nat list" where
  "chain_lengths_loop c [] = Inr []"
| "chain_lengths_loop c (t # ts) =
     on_ok (get_param c t 1) (\<lambda>chain.
     on_ok (chain_lengths_loop c ts) (\<lambda>ls. Inr (length chain # ls)))"

text \<open>
  The slice \<^verbatim>\<open>hot_chain[len(hot_chain) - min_length:]\<close>. A negative start (a chain shorter
  than \<open>min_length\<close>) would count from the end of the chain.
\<close>

definition tail_slice :: "'a list \<Rightarrow> nat \<Rightarrow> 'a list" where
  "tail_slice hot_chain min_length =
     (if min_length \<le> length hot_chain then drop (length hot_chain - min_length) hot_chain
      else drop (length hot_chain - (min_length - length hot_chain)) hot_chain)"

text \<open>The second loop (lines 75-77), from column \<open>ii\<close> on.\<close>

fun fill_loop :: "'p core \<Rightarrow> 'p list \<Rightarrow> nat \<Rightarrow> nat \<Rightarrow> real ndarray \<Rightarrow> error + real ndarray" where
  "fill_loop c [] min_length ii betalike = Inr betalike"
| "fill_loop c (t # ts) min_length ii betalike =
     on_ok (get_param c t 1) (\<lambda>hot_chain.
     on_ok (set_col betalike ii (tail_slice hot_chain min_length)) (\<lambda>betalike'.
     fill_loop c ts min_length (Suc ii) betalike'))"

definition make_betalike :: "'p core \<Rightarrow> error + ('p list \<times> real ndarray)" where
  "make_betalike slices_core =
     (let temps = params slices_core in
      on_ok (chain_lengths_loop slices_core temps) (\<lambda>chain_lengths.
      let num_temps = length chain_lengths in
      on_ok (py_min chain_lengths) (\<lambda>min_length.
      on_ok (fill_loop slices_core temps min_length 0 (np_zeros (min_length, num_temps)))
        (\<lambda>betalike. Inr (temps, betalike)))))"

section \<open>The thermodynamic integrator's \<^verbatim>\<open>ti_bootstrap\<close>\<close>

text \<open>
  The subsample size \<^verbatim>\<open>int(0.1 * len(trimmed_like))\<close>, with the product taken in exact
  arithmetic.
\<close>

definition subsample_size :: "'a list \<Rightarrow> nat" where
  "subsample_size trimmed_like = nat (py_int (0.1 * real (length trimmed_like)))"

text \<open>
  Lines 112-115 for one column \<open>ii\<close>, up to the draw: the autocorrelation time of the
  column, the thinned column, the subsample size, and the draw matrix.
\<close>

definition ti_column_draws ::
  "('g, 'e) env \<Rightarrow> 'g \<Rightarrow> real ndarray \<Rightarrow> nat \<Rightarrow> nat \<Rightarrow> error + (real ndarray \<times> 'g)" where
  "ti_column_draws E g betalike ii num_reals =
     on_ok (get_col betalike ii) (\<lambda>column.
     on_ok (integrated_time E column) (\<lambda>t.
     let tau = py_int t in
     on_ok (slice_step column tau) (\<lambda>trimmed_like.
     let num_samples = subsample_size trimmed_like in
     rng_choice (draw_index E) g column (num_reals, num_samples))))"

text \<open>The loop of lines 111-115 from column \<open>ii\<close> on, \<open>k\<close> columns left to do.\<close>

fun ti_loop ::
  "('g, 'e) env \<Rightarrow> real ndarray \<Rightarrow> nat \<Rightarrow> nat \<Rightarrow> nat \<Rightarrow> npfloat ndarray \<Rightarrow> 'g
     \<Rightarrow> error + (npfloat ndarray \<times> 'g)" where
  "ti_loop E betalike num_reals 0 ii new_means g = Inr (new_means, g)"
| "ti_loop E betalike num_reals (Suc k) ii new_means g =
     on_ok (ti_column_draws E g betalike ii num_reals) (\<lambda>(draws, g1).
     on_ok (set_col new_means ii (map np_mean (rows draws))) (\<lambda>new_means'.
     ti_loop E betalike num_reals k (Suc ii) new_means' g1))"

text \<open>The matrix of realization means as assembled by the loop, before line 116.\<close>

definition ti_assemble ::
  "('g, 'e) env \<Rightarrow> 'g \<Rightarrow> real ndarray \<Rightarrow> nat \<Rightarrow> nat \<Rightarrow> error + (npfloat ndarray \<times> 'g)" where
  "ti_assemble E g betalike num_chains num_reals =
     ti_loop E betalike num_reals num_chains 0 (np_zeros (num_reals, num_chains)) g"

definition ti_bootstrap ::
  "('g, 'e) env \<Rightarrow> ('g, 'e) world \<Rightarrow> real ndarray \<Rightarrow> nat \<Rightarrow> nat
     \<Rightarrow> error + (npfloat ndarray \<times> ('g, 'e) world)" where
  "ti_bootstrap E w betalike num_chains num_reals =
     (case default_rng E (os_entropy w) of (local_rng, e') \<Rightarrow>
      on_ok (ti_assemble E local_rng betalike num_chains num_reals) (\<lambda>(new_means, g').
      Inr (np_flip new_means, w\<lparr>os_entropy := e'\<rparr>)))"

section \<open>The odds-ratio bootstrapper \<^verbatim>\<open>odds_ratio_bootstrap\<close>\<close>

text \<open>
  \<^verbatim>\<open>len(np.where((row > lo) & (row <= hi))[0])\<close>: the two comparison masks, their
  elementwise conjunction, the indices where it holds, and their number.
\<close>

definition np_where :: "bool list \<Rightarrow> nat list" where
  "np_where m = filter (\<lambda>i. m ! i) [0..<length m]"

definition domain_count :: "real \<times> real \<Rightarrow> real list \<Rightarrow> nat" where
  "domain_count d row =
     length (np_where (map (\<lambda>(a, b). a \<and> b)
       (zip (map (\<lambda>x. x > fst d) row) (map (\<lambda>x. x \<le> snd d) row))))"

text \<open>The division of two Python integers: it raises on a zero divisor.\<close>

definition py_truediv :: "nat \<Rightarrow> nat \<Rightarrow> error + real" where
  "py_truediv a b = (if b = 0 then Inl ZeroDivisionError else Inr (real a / real b))"

text \<open>The loop of lines 221-223 over the realizations, in order.\<close>

fun ors_loop :: "(real \<times> real) \<times> (real \<times> real) \<Rightarrow> real list list \<Rightarrow> error + real list" where
  "ors_loop domains [] = Inr []"
| "ors_loop domains (row # rest) =
     on_ok (py_truediv (domain_count (fst domains) row) (domain_count (snd domains) row)) (\<lambda>q.
     on_ok (ors_loop domains rest) (\<lambda>qs. Inr (q # qs)))"

text \<open>Lines 213-219: the chain, the fresh generator, and the draw matrix.\<close>

definition odds_ratio_draws ::
  "('g, 'e) env \<Rightarrow> 'g \<Rightarrow> real list \<Rightarrow> nat \<Rightarrow> error + (real ndarray \<times> 'g)" where
  "odds_ratio_draws E g nmodel num_reals =
     on_ok (integrated_time E nmodel) (\<lambda>t.
     let tau = py_int t in
     on_ok (slice_step nmodel tau) (\<lambda>thinned_nmodel.
     let num_samples = subsample_size thinned_nmodel in
     rng_choice (draw_index E) g nmodel (num_reals, num_samples)))"

definition odds_ratio_bootstrap ::
  "('g, 'e) env \<Rightarrow> ('g, 'e) world \<Rightarrow> string core \<Rightarrow> nat \<Rightarrow> (real \<times> real) \<times> (real \<times> real)
     \<Rightarrow> error + ((npfloat \<times> npfloat) \<times> ('g, 'e) world)" where
  "odds_ratio_bootstrap E w hmcore num_reals domains =
     on_ok (get_param hmcore ''nmodel'' 1) (\<lambda>nmodel.
     case default_rng E (os_entropy w) of (local_rng, e') \<Rightarrow>
     on_ok (odds_ratio_draws E local_rng nmodel num_reals) (\<lambda>(new_nmodels, g').
     on_ok (ors_loop domains (take num_reals (rows new_nmodels))) (\<lambda>ors.
     Inr ((np_mean ors, np_std ors), w\<lparr>os_entropy := e'\<rparr>))))"

definition default_domains :: "(real \<times> real) \<times> (real \<times> real)" where
  "default_domains = ((- 0.5, 0.5), (0.5, 1.5))"

section \<open>The thermodynamic integrator's \<^verbatim>\<open>ti_log_evidence\<close>\<close>























section \<open>Concrete collaborators for worked examples\<close>

text \<open>
  Modelled from the spec: the accessor class itself (\<^verbatim>\<open>la_forge.core\<close>) is not part of the
  module; its \<^verbatim>\<open>get_param(name, thin_by)\<close> "returns the full (or strided) sample sequence
  for that name". Here the chains are stored in an association list, and an unknown name
  raises.
\<close>

definition stored_core :: "('p \<times> real list) list \<Rightarrow> 'p core" where
  "stored_core store =
     \<lparr>params = map fst store,
      get_param = (\<lambda>name thin_by.
        case map_of store name of
          None \<Rightarrow> Inl AccessorError
        | Some chain \<Rightarrow> slice_step chain thin_by)\<rparr>"

text \<open>
  A deterministic environment: the autocorrelation estimate is the constant \<open>tau\<close>, a
  generator is a counter whose draw is its current value (reduced modulo the pool size by
  \<open>draw_row\<close>), and a fresh generator starts at the current value of the entropy counter.
\<close>

definition counter_env :: "real \<Rightarrow> (nat, nat) env" where
  "counter_env tau =
     \<lparr>integrated_time = (\<lambda>xs. Inr tau),
      draw_index = (\<lambda>g n. (g, Suc g)),
      default_rng = (\<lambda>e. (e, Suc e))\<rparr>"

definition ramp :: "nat \<Rightarrow> real list" where
  "ramp n = map real [0..<n]"

definition demo_ladder :: "real ndarray" where
  "demo_ladder = \<lparr>ncols = 2, rows = map (\<lambda>k. [real k, 100 + real k]) [0..<20]\<rparr>"

definition demo_nmodel :: "real list" where
  "demo_nmodel = map (\<lambda>k. 0.6 + real k / 100) [0..<20]"



definition demo_betalike :: "real ndarray" where
  "demo_betalike = \<lparr>ncols = 2, rows = map (\<lambda>k. [real k, 10 + real k]) [0..<10]\<rparr>"

section \<open>Auxiliary facts\<close>

lemma on_ok_simps: "on_ok (Inl e) f = Inl e" "on_ok (Inr x) f = f x"
  by (simp_all add: on_ok_def)

lemma on_ok_Inr_iff: "on_ok r f = Inr y \<longleftrightarrow> (\<exists>x. r = Inr x \<and> f x = Inr y)"
  by (cases r) (simp_all add: on_ok_def)

lemma well_shaped_iff: "well_shaped M \<longleftrightarrow> (\<forall>r < length (rows M). length (rows M ! r) = ncols M)"
  by (simp add: well_shaped_def list_all_length)

lemma set_col_ok:
  assumes "ii < ncols M" and "length v = length (rows M)"
  shows "set_col M ii v = Inr (M\<lparr>rows := map (\<lambda>(row, x). row[ii := x]) (zip (rows M) v)\<rparr>)"
  using assms by (simp add: set_col_def)

lemma set_col_props:
  assumes "ii < ncols M" and "length v = length (rows M)" and "well_shaped M"
    and "set_col M ii v = Inr M'"
  shows "ncols M' = ncols M" and "length (rows M') = length (rows M)" and "well_shaped M'"
    and "get_col M' ii = Inr v"
    and "j \<noteq> ii \<Longrightarrow> get_col M' j = get_col M j"
proof -
  have M': "M' = M\<lparr>rows := map (\<lambda>(row, x). row[ii := x]) (zip (rows M) v)\<rparr>"
    using assms set_col_ok [of ii M v] by simp
  show "ncols M' = ncols M" by (simp add: M')
  show "length (rows M') = length (rows M)" using assms(2) by (simp add: M')
  show "well_shaped M'"
    using assms(2,3) by (simp add: M' well_shaped_iff)
  show "get_col M' ii = Inr v"
    using assms(1,2,3)
    by (auto simp: M' get_col_def well_shaped_iff intro!: nth_equalityI)
  show "get_col M' j = get_col M j" if "j \<noteq> ii"
    using assms(2) that
    by (auto simp: M' get_col_def intro!: nth_equalityI)
qed

lemma chain_lengths_loop_ok:
  assumes "\<forall>t \<in> set ts. get_param c t 1 = Inr (chain t)"
  shows "chain_lengths_loop c ts = Inr (map (\<lambda>t. length (chain t)) ts)"
  using assms by (induction ts) (simp_all add: on_ok_simps)

lemma py_min_ok: "xs \<noteq> [] \<Longrightarrow> py_min xs = Inr (Min (set xs))"
  by (cases xs) (simp_all add: py_min_def Min.set_eq_fold [symmetric] del: list.set)

lemma tail_slice_drop:
  "m \<le> length xs \<Longrightarrow> tail_slice xs m = drop (length xs - m) xs"
  by (simp add: tail_slice_def)

lemma fill_loop_ok:
  assumes "\<forall>t \<in> set ts. get_param c t 1 = Inr (chain t) \<and> m \<le> length (chain t)"
    and "length (rows M) = m" and "well_shaped M" and "ii + length ts \<le> ncols M"
  shows "\<exists>M'. fill_loop c ts m ii M = Inr M' \<and> ncols M' = ncols M \<and> length (rows M') = m
           \<and> well_shaped M'
           \<and> (\<forall>j < ii. get_col M' j = get_col M j)
           \<and> (\<forall>k < length ts. get_col M' (ii + k) = Inr (tail_slice (chain (ts ! k)) m))"
  using assms
proof (induction ts arbitrary: ii M)
  case Nil
  then show ?case by simp
next
  case (Cons t ts)
  let ?v = "tail_slice (chain t) m"
  have len: "length ?v = length (rows M)"
    using Cons.prems(1,2) by (simp add: tail_slice_drop)
  have ii: "ii < ncols M" using Cons.prems(4) by simp
  obtain M1 where M1: "set_col M ii ?v = Inr M1"
    using set_col_ok [OF ii len] by blast
  note P = set_col_props [OF ii len Cons.prems(3) M1]
  have "\<exists>M'. fill_loop c ts m (Suc ii) M1 = Inr M' \<and> ncols M' = ncols M1 \<and> length (rows M') = m
           \<and> well_shaped M'
           \<and> (\<forall>j < Suc ii. get_col M' j = get_col M1 j)
           \<and> (\<forall>k < length ts. get_col M' (Suc ii + k) = Inr (tail_slice (chain (ts ! k)) m))"
    using Cons.prems P(1,2,3) by (intro Cons.IH) auto
  then obtain M' where M':
    "fill_loop c ts m (Suc ii) M1 = Inr M'" "ncols M' = ncols M1" "length (rows M') = m"
    "well_shaped M'" "\<forall>j < Suc ii. get_col M' j = get_col M1 j"
    "\<forall>k < length ts. get_col M' (Suc ii + k) = Inr (tail_slice (chain (ts ! k)) m)"
    by blast
  have run: "fill_loop c (t # ts) m ii M = Inr M'"
    using Cons.prems(1) M1 M'(1) by (simp add: on_ok_simps)
  have old: "\<forall>j < ii. get_col M' j = get_col M j"
    using M'(5) P(5) by auto
  have new: "get_col M' (ii + k) = Inr (tail_slice (chain ((t # ts) ! k)) m)"
    if "k < length (t # ts)" for k
  proof (cases k)
    case 0
    then show ?thesis using M'(5) P(4) by simp
  next
    case (Suc k')
    then show ?thesis using M'(6) that by simp
  qed
  show ?case
  proof (intro exI conjI)
    show "fill_loop c (t # ts) m ii M = Inr M'" by (rule run)
    show "ncols M' = ncols M" using M'(2) P(1) by simp
    show "length (rows M') = m" by (rule M'(3))
    show "well_shaped M'" by (rule M'(4))
    show "\<forall>j < ii. get_col M' j = get_col M j" by (rule old)
    show "\<forall>k < length (t # ts). get_col M' (ii + k) = Inr (tail_slice (chain ((t # ts) ! k)) m)"
      using new by blast
  qed
qed

lemma np_zeros_props:
  "ncols (np_zeros (r, c)) = c" "length (rows (np_zeros (r, c))) = r" "well_shaped (np_zeros (r, c))"
  by (simp_all add: np_zeros_def well_shaped_def list_all_length)


lemma draw_row_length: "length (fst (draw_row dr a k g)) = k"
  by (induction k arbitrary: g) (simp_all add: case_prod_beta)

lemma draw_row_set: "a \<noteq> [] \<Longrightarrow> set (fst (draw_row dr a k g)) \<subseteq> set a"
  by (induction k arbitrary: g) (auto simp: case_prod_beta)

lemma draw_rows_length: "length (fst (draw_rows dr a r c g)) = r"
  by (induction r arbitrary: g) (simp_all add: case_prod_beta)

lemma draw_rows_row:
  assumes "row \<in> set (fst (draw_rows dr a r c g))"
  shows "length row = c \<and> (a \<noteq> [] \<longrightarrow> set row \<subseteq> set a)"
  using assms
proof (induction r arbitrary: g)
  case 0
  then show ?case by simp
next
  case (Suc r)
  obtain x g1 where x: "draw_row dr a c g = (x, g1)" by (cases "draw_row dr a c g")
  obtain rs g2 where rs: "draw_rows dr a r c g1 = (rs, g2)" by (cases "draw_rows dr a r c g1")
  from Suc.prems x rs have "row = x \<or> row \<in> set (fst (draw_rows dr a r c g1))" by auto
  then show ?case
  proof
    assume "row = x"
    then show ?thesis
      using draw_row_length [of dr a c g] draw_row_set [of a dr c g] x by auto
  next
    assume "row \<in> set (fst (draw_rows dr a r c g1))"
    then show ?thesis by (rule Suc.IH)
  qed
qed

lemma rng_choice_props:
  assumes "rng_choice dr g a (r, c) = Inr (D, g')"
  shows "shape D = (r, c)" and "well_shaped D" and "\<forall>row \<in> set (rows D). set row \<subseteq> set a"
proof -
  obtain rs g2 where rs: "draw_rows dr a r c g = (rs, g2)" by (cases "draw_rows dr a r c g")
  have ne: "a \<noteq> [] \<or> r * c = 0" and D: "D = \<lparr>ncols = c, rows = rs\<rparr>"
    using assms rs by (auto simp: rng_choice_def split: if_splits)
  have len: "length rs = r" using draw_rows_length [of dr a r c g] rs by simp
  have row: "length row = c \<and> (a \<noteq> [] \<longrightarrow> set row \<subseteq> set a)" if "row \<in> set rs" for row
    using draw_rows_row [of row dr a r c g] that rs by simp
  show "shape D = (r, c)" by (simp add: D shape_def len)
  show "well_shaped D" using row by (simp add: D well_shaped_def list_all_iff)
  show "\<forall>row \<in> set (rows D). set row \<subseteq> set a"
  proof
    fix row assume r: "row \<in> set (rows D)"
    show "set row \<subseteq> set a"
    proof (cases "a = []")
      case False
      then show ?thesis using row r by (simp add: D)
    next
      case True
      with ne have "r = 0 \<or> c = 0" by simp
      then show ?thesis using row [of row] r len by (auto simp: D)
    qed
  qed
qed

lemma rng_choice_total:
  "a \<noteq> [] \<or> r * c = 0 \<Longrightarrow> \<exists>D g'. rng_choice dr g a (r, c) = Inr (D, g')"
  by (auto simp: rng_choice_def split: prod.splits)


lemma slice_step_1: "slice_step xs 1 = Inr xs"
proof -
  have "stride (Suc 0) xs = xs" by (induction xs) simp_all
  then show ?thesis by (simp add: slice_step_def)
qed

lemma ti_column_draws_Inr:
  assumes "ti_column_draws E g betalike ii num_reals = Inr (D, g')"
  shows "\<exists>column t trimmed_like.
           get_col betalike ii = Inr column \<and> integrated_time E column = Inr t
           \<and> slice_step column (py_int t) = Inr trimmed_like
           \<and> rng_choice (draw_index E) g column (num_reals, subsample_size trimmed_like) = Inr (D, g')"
  using assms by (auto simp: ti_column_draws_def on_ok_Inr_iff Let_def)

lemma ti_column_draws_rows:
  assumes "ti_column_draws E g betalike ii num_reals = Inr (D, g')"
  shows "length (rows D) = num_reals"
proof -
  obtain column and trimmed_like :: "real list" where
    "rng_choice (draw_index E) g column (num_reals, subsample_size trimmed_like) = Inr (D, g')"
    using ti_column_draws_Inr [OF assms] by blast
  from rng_choice_props(1) [OF this] show ?thesis by (simp add: shape_def)
qed

lemma ti_loop_ok:
  assumes "ti_loop E betalike num_reals k ii M g = Inr (M', g')"
    and "length (rows M) = num_reals" and "well_shaped M" and "ii + k \<le> ncols M"
  shows "ncols M' = ncols M \<and> length (rows M') = num_reals \<and> well_shaped M'
         \<and> (\<forall>j < ii. get_col M' j = get_col M j)
         \<and> (\<forall>i. ii \<le> i \<and> i < ii + k \<longrightarrow>
               (\<exists>g0 D g1. ti_column_draws E g0 betalike i num_reals = Inr (D, g1)
                  \<and> get_col M' i = Inr (map np_mean (rows D))))"
  using assms
proof (induction k arbitrary: ii M g)
  case 0
  then show ?case by auto
next
  case (Suc k)
  from Suc.prems(1) obtain D g1 M1 where
    D: "ti_column_draws E g betalike ii num_reals = Inr (D, g1)"
    and M1: "set_col M ii (map np_mean (rows D)) = Inr M1"
    and rest: "ti_loop E betalike num_reals k (Suc ii) M1 g1 = Inr (M', g')"
    by (auto simp: on_ok_Inr_iff)
  have ii: "ii < ncols M" using Suc.prems(4) by simp
  have len: "length (map np_mean (rows D)) = length (rows M)"
    using ti_column_draws_rows [OF D] Suc.prems(2) by simp
  note P = set_col_props [OF ii len Suc.prems(3) M1]
  have IH: "ncols M' = ncols M1 \<and> length (rows M') = num_reals \<and> well_shaped M'
         \<and> (\<forall>j < Suc ii. get_col M' j = get_col M1 j)
         \<and> (\<forall>i. Suc ii \<le> i \<and> i < Suc ii + k \<longrightarrow>
               (\<exists>g0 D g1. ti_column_draws E g0 betalike i num_reals = Inr (D, g1)
                  \<and> get_col M' i = Inr (map np_mean (rows D))))"
    using rest P(1,2,3) Suc.prems(2,4) by (intro Suc.IH) simp_all
  have old: "\<forall>j < ii. get_col M' j = get_col M j"
    using IH P(5) by auto
  have here: "get_col M' ii = Inr (map np_mean (rows D))"
    using IH P(4) by simp
  have new: "\<exists>g0 D g1. ti_column_draws E g0 betalike i num_reals = Inr (D, g1)
                  \<and> get_col M' i = Inr (map np_mean (rows D))"
    if "ii \<le> i \<and> i < ii + Suc k" for i
  proof (cases "i = ii")
    case True
    then show ?thesis using D here by blast
  next
    case False
    with that have "Suc ii \<le> i \<and> i < Suc ii + k" by simp
    with IH show ?thesis by blast
  qed
  show ?case
    using IH P(1) old new by simp
qed

lemma np_flip_props:
  assumes "well_shaped A"
  shows "shape (np_flip A) = shape A" and "well_shaped (np_flip A)"
    and "r < length (rows A) \<Longrightarrow> j < ncols A \<Longrightarrow>
           entry (np_flip A) r j = entry A (length (rows A) - 1 - r) (ncols A - 1 - j)"
proof -
  show "shape (np_flip A) = shape A" by (simp add: np_flip_def shape_def)
  show "well_shaped (np_flip A)"
    using assms by (simp add: np_flip_def well_shaped_def list_all_iff)
  show "entry (np_flip A) r j = entry A (length (rows A) - 1 - r) (ncols A - 1 - j)"
    if "r < length (rows A)" "j < ncols A"
  proof -
    have "length (rows A ! (length (rows A) - Suc r)) = ncols A"
      using assms that(1) by (simp add: well_shaped_iff)
    then show ?thesis
      using that by (simp add: np_flip_def entry_def rev_nth rev_map [symmetric])
  qed
qed

lemma np_where_length: "length (np_where m) = length (filter id m)"
proof (induction m rule: rev_induct)
  case Nil
  then show ?case by (simp add: np_where_def)
next
  case (snoc b m)
  have "filter (\<lambda>i. (m @ [b]) ! i) [0..<length m] = filter (\<lambda>i. m ! i) [0..<length m]"
    by (rule filter_cong) (auto simp: nth_append)
  with snoc show ?case by (simp add: np_where_def)
qed

lemma domain_count_filter:
  "domain_count d row = length (filter (\<lambda>s. fst d < s \<and> s \<le> snd d) row)"
proof -
  have "filter id (map (\<lambda>(a, b). a \<and> b)
          (zip (map (\<lambda>x. x > fst d) row) (map (\<lambda>x. x \<le> snd d) row)))
        = map (\<lambda>_. True) (filter (\<lambda>s. fst d < s \<and> s \<le> snd d) row)"
    by (induction row) auto
  then show ?thesis
    by (simp add: domain_count_def np_where_length)
qed

lemma ti_bootstrap_Inr:
  assumes "ti_bootstrap E w betalike num_chains num_reals = Inr (out, w')"
  shows "\<exists>A g'. ti_assemble E (fst (default_rng E (os_entropy w))) betalike num_chains num_reals
                   = Inr (A, g')
           \<and> out = np_flip A \<and> w' = w\<lparr>os_entropy := snd (default_rng E (os_entropy w))\<rparr>"
  using assms by (auto simp: ti_bootstrap_def on_ok_Inr_iff split: prod.splits)

lemma ti_assemble_props:
  assumes "ti_assemble E g betalike num_chains num_reals = Inr (A, g')"
  shows "shape A = (num_reals, num_chains)" and "well_shaped A"
    and "\<forall>i < num_chains. \<exists>g0 D g1.
            ti_column_draws E g0 betalike i num_reals = Inr (D, g1)
            \<and> get_col A i = Inr (map np_mean (rows D))"
proof -
  let ?Z = "np_zeros (num_reals, num_chains) :: npfloat ndarray"
  have run: "ti_loop E betalike num_reals num_chains 0 ?Z g = Inr (A, g')"
    using assms by (simp add: ti_assemble_def)
  have inv: "ncols A = ncols ?Z \<and> length (rows A) = num_reals \<and> well_shaped A
         \<and> (\<forall>j < 0. get_col A j = get_col ?Z j)
         \<and> (\<forall>i. 0 \<le> i \<and> i < 0 + num_chains \<longrightarrow>
               (\<exists>g0 D g1. ti_column_draws E g0 betalike i num_reals = Inr (D, g1)
                  \<and> get_col A i = Inr (map np_mean (rows D))))"
    using run by (rule ti_loop_ok) (simp_all add: np_zeros_props)
  show "shape A = (num_reals, num_chains)" using inv by (simp add: shape_def np_zeros_props)
  show "well_shaped A" using inv by simp
  show "\<forall>i < num_chains. \<exists>g0 D g1.
            ti_column_draws E g0 betalike i num_reals = Inr (D, g1)
            \<and> get_col A i = Inr (map np_mean (rows D))"
    using inv by simp
qed

lemma ti_bootstrap_rows:
  assumes "ti_bootstrap E w betalike num_chains num_reals = Inr (out, w')"
  shows "length (rows out) = num_reals"
proof -
  obtain A g' where A:
    "ti_assemble E (fst (default_rng E (os_entropy w))) betalike num_chains num_reals = Inr (A, g')"
    and out: "out = np_flip A"
    using ti_bootstrap_Inr [OF assms] by blast
  from ti_assemble_props(1) [OF A] show ?thesis
    by (simp add: out np_flip_def shape_def)
qed

lemma subsample_size_floor: "subsample_size xs = nat \<lfloor>0.1 * real (length xs)\<rfloor>"
  by (simp add: subsample_size_def py_int_def)

lemma subsample_size_div: "subsample_size xs = length xs div 10"
proof -
  have "\<lfloor>real (length xs) / 10\<rfloor> = int (length xs div 10)"
    using floor_divide_of_nat_eq [of "length xs" 10, where ?'a = real] by simp
  then show ?thesis by (simp add: subsample_size_floor)
qed

lemma np_flip_involution: "np_flip (np_flip A) = A"
  by (simp add: np_flip_def rev_map [symmetric])

lemma odds_ratio_draws_Inr:
  assumes "odds_ratio_draws E g nmodel num_reals = Inr (D, g')"
  shows "\<exists>t thinned_nmodel.
           integrated_time E nmodel = Inr t \<and> slice_step nmodel (py_int t) = Inr thinned_nmodel
           \<and> rng_choice (draw_index E) g nmodel (num_reals, subsample_size thinned_nmodel) = Inr (D, g')"
  using assms by (auto simp: odds_ratio_draws_def on_ok_Inr_iff Let_def)

lemma odds_ratio_draws_rows:
  assumes "odds_ratio_draws E g nmodel num_reals = Inr (D, g')"
  shows "length (rows D) = num_reals"
proof -
  obtain thinned_nmodel :: "real list" where
    "rng_choice (draw_index E) g nmodel (num_reals, subsample_size thinned_nmodel) = Inr (D, g')"
    using odds_ratio_draws_Inr [OF assms] by blast
  from rng_choice_props(1) [OF this] show ?thesis by (simp add: shape_def)
qed

lemma odds_ratio_bootstrap_Inr:
  assumes "odds_ratio_bootstrap E w hmcore num_reals domains = Inr (res, w')"
  shows "\<exists>nmodel D g' ors.
           get_param hmcore ''nmodel'' 1 = Inr nmodel
           \<and> odds_ratio_draws E (fst (default_rng E (os_entropy w))) nmodel num_reals = Inr (D, g')
           \<and> ors_loop domains (rows D) = Inr ors
           \<and> res = (np_mean ors, np_std ors)
           \<and> w' = w\<lparr>os_entropy := snd (default_rng E (os_entropy w))\<rparr>"
proof -
  obtain lr e' where d: "default_rng E (os_entropy w) = (lr, e')"
    by (cases "default_rng E (os_entropy w)")
  from assms d obtain nmodel D g' ors where
    n: "get_param hmcore ''nmodel'' 1 = Inr nmodel"
    and D: "odds_ratio_draws E lr nmodel num_reals = Inr (D, g')"
    and o: "ors_loop domains (take num_reals (rows D)) = Inr ors"
    and r: "res = (np_mean ors, np_std ors)" "w' = w\<lparr>os_entropy := e'\<rparr>"
    by (auto simp: odds_ratio_bootstrap_def on_ok_Inr_iff)
  have "take num_reals (rows D) = rows D"
    using odds_ratio_draws_rows [OF D] by simp
  with n D o r d show ?thesis by auto
qed

lemma bootstrap_Inr:
  assumes "bootstrap E w c param num_reals num_samples = Inr (A, w1)"
  shows "\<exists>chain t array g'.
           get_param c param 1 = Inr chain \<and> integrated_time E chain = Inr t
           \<and> get_param c param (py_int t) = Inr array
           \<and> rng_choice (draw_index E) (rng w) array (num_samples, num_reals) = Inr (A, g')
           \<and> w1 = w\<lparr>rng := g'\<rparr>"
  using assms by (auto simp: bootstrap_def on_ok_Inr_iff Let_def)

lemma ti_bootstrap_rng_irrelevant:
  "ti_bootstrap E (w\<lparr>rng := g\<rparr>) betalike num_chains num_reals
     = map_sum id (map_prod id (rng_update (\<lambda>_. g))) (ti_bootstrap E w betalike num_chains num_reals)"
proof -
  obtain lr e' where d: "default_rng E (os_entropy w) = (lr, e')"
    by (cases "default_rng E (os_entropy w)")
  show ?thesis
  proof (cases "ti_assemble E lr betalike num_chains num_reals")
    case (Inl e)
    then show ?thesis using d by (simp add: ti_bootstrap_def on_ok_simps)
  next
    case (Inr p)
    then show ?thesis using d by (cases p) (simp add: ti_bootstrap_def on_ok_simps)
  qed
qed

lemma odds_ratio_bootstrap_rng_irrelevant:
  "odds_ratio_bootstrap E (w\<lparr>rng := g\<rparr>) hmcore num_reals domains
     = map_sum id (map_prod id (rng_update (\<lambda>_. g)))
         (odds_ratio_bootstrap E w hmcore num_reals domains)"
proof -
  obtain lr e' where d: "default_rng E (os_entropy w) = (lr, e')"
    by (cases "default_rng E (os_entropy w)")
  show ?thesis
  proof (cases "get_param hmcore ''nmodel'' 1")
    case (Inl e)
    then show ?thesis by (simp add: odds_ratio_bootstrap_def on_ok_simps)
  next
    case n: (Inr nmodel)
    show ?thesis
    proof (cases "odds_ratio_draws E lr nmodel num_reals")
      case (Inl e)
      then show ?thesis using d n by (simp add: odds_ratio_bootstrap_def on_ok_simps)
    next
      case (Inr p)
      obtain D g' where p: "p = (D, g')" by (cases p)
      show ?thesis
      proof (cases "ors_loop domains (take num_reals (rows D))")
        case (Inl e)
        then show ?thesis using d n Inr p by (simp add: odds_ratio_bootstrap_def on_ok_simps)
      next
        case o: (Inr ors)
        then show ?thesis using d n Inr p by (simp add: odds_ratio_bootstrap_def on_ok_simps)
      qed
    qed
  qed
qed

lemma ors_loop_zero_count:
  assumes "\<exists>row \<in> set rs. domain_count (snd domains) row = 0"
  shows "ors_loop domains rs = Inl ZeroDivisionError"
  using assms
proof (induction rs)
  case Nil
  then show ?case by simp
next
  case (Cons row rs)
  show ?case
  proof (cases "domain_count (snd domains) row = 0")
    case True
    then show ?thesis by (simp add: py_truediv_def on_ok_simps)
  next
    case False
    with Cons.prems have "\<exists>row \<in> set rs. domain_count (snd domains) row = 0" by simp
    from Cons.IH [OF this] False show ?thesis by (simp add: py_truediv_def on_ok_simps)
  qed
qed

lemma ors_loop_nonzero_counts:
  assumes "\<forall>row \<in> set rs. domain_count (snd domains) row \<noteq> 0"
  shows "ors_loop domains rs
           = Inr (map (\<lambda>row. real (domain_count (fst domains) row)
                              / real (domain_count (snd domains) row)) rs)"
  using assms by (induction rs) (simp_all add: py_truediv_def on_ok_simps)


lemma chain_lengths_loop_length:
  "chain_lengths_loop c ts = Inr ls \<Longrightarrow> length ls = length ts"
  by (induction ts arbitrary: ls) (auto simp: on_ok_Inr_iff)

lemma make_betalike_Inr:
  assumes "make_betalike c = Inr (temps, betalike)"
  shows "temps = params c" and "temps \<noteq> []"
proof -
  from assms obtain ls m where ls: "chain_lengths_loop c (params c) = Inr ls"
    and m: "py_min ls = Inr m" and t: "temps = params c"
    by (auto simp: make_betalike_def Let_def on_ok_Inr_iff)
  show "temps = params c" by (rule t)
  have "ls \<noteq> []" using m by (auto simp: py_min_def)
  then show "temps \<noteq> []" using chain_lengths_loop_length [OF ls] t by auto
qed




subsection \<open>Worked examples\<close>

text \<open>
  Runs of the module in the deterministic environment, evaluated once and used below.
\<close>

lemma demo_ti_run:
  "ti_bootstrap (counter_env 2) \<lparr>rng = 100, os_entropy = 1\<rparr> demo_ladder 2 1
     = Inr (\<lparr>ncols = 2, rows = [[Fin 102, Fin 1]]\<rparr>, \<lparr>rng = 100, os_entropy = 2\<rparr>)"
  by code_simp

lemma demo_bootstrap_run:
  "bootstrap (counter_env 2) \<lparr>rng = 100, os_entropy = 1\<rparr> (stored_core [(''a'', ramp 6)]) ''a'' 1 3
     = Inr (\<lparr>ncols = 1, rows = [[2], [4], [0]]\<rparr>, \<lparr>rng = 103, os_entropy = 1\<rparr>)"
  by code_simp

lemma demo_odds_draws:
  "odds_ratio_draws (counter_env 2) 1 demo_nmodel 1 = Inr (\<lparr>ncols = 1, rows = [[0.61]]\<rparr>, 2)"
  by code_simp

lemma demo_odds_run:
  "odds_ratio_bootstrap (counter_env 2) \<lparr>rng = 100, os_entropy = 1\<rparr>
      (stored_core [(''nmodel'', demo_nmodel)]) 1 default_domains
     = Inr ((Fin 0, Fin 0), \<lparr>rng = 100, os_entropy = 2\<rparr>)"
proof -
  have a: "get_param (stored_core [(''nmodel'', demo_nmodel)]) ''nmodel'' 1 = Inr demo_nmodel"
    by (simp add: stored_core_def slice_step_1)
  have c: "ors_loop default_domains [[0.61]] = Inr [0]"
    by code_simp
  have d: "default_rng (counter_env 2) 1 = (1, 2)"
    by (simp add: counter_env_def)
  show ?thesis
    using a demo_odds_draws c d
    by (simp add: odds_ratio_bootstrap_def on_ok_simps np_mean_def np_std_def)
qed

lemma demo_column_draws:
  "ti_column_draws (counter_env 2) 1 demo_ladder 0 1 = Inr (\<lparr>ncols = 1, rows = [[1]]\<rparr>, 2)
   \<and> slice_step (ramp 20) 2 = Inr [0, 2, 4, 6, 8, 10, 12, 14, 16, 18]
   \<and> get_col demo_ladder 0 = Inr (ramp 20)"
  by code_simp

lemma demo_zero_draws:
  "odds_ratio_draws (counter_env 1) 0 (replicate 10 0) 1 = Inr (\<lparr>ncols = 1, rows = [[0]]\<rparr>, 1)"
  by code_simp

lemma demo_zero_run: "odds_ratio_bootstrap (counter_env 1) \<lparr>rng = 100, os_entropy = 0\<rparr>
       (stored_core [(''nmodel'', replicate 10 0)]) 1 default_domains
     = Inl ZeroDivisionError"
proof -
  have a: "get_param (stored_core [(''nmodel'', replicate 10 0)]) ''nmodel'' 1
             = Inr (replicate 10 0)"
    by (simp add: stored_core_def slice_step_1)
  have d: "default_rng (counter_env 1) 0 = (0, 1)"
    by (simp add: counter_env_def)
  have c: "ors_loop default_domains [[0]] = Inl ZeroDivisionError"
    by code_simp
  show ?thesis
    using a d demo_zero_draws c by (simp add: odds_ratio_bootstrap_def on_ok_simps)
qed

section \<open>The temperature-ladder assembler\<close>

text \<open>
  C2. Let the accessor expose a non-empty list of parameter names, and let \<open>chain t\<close> be
  the chain it returns for the name \<open>t\<close>; the chains may differ in length. Then
  \<^verbatim>\<open>make_betalike\<close> returns the names and a matrix with exactly \<open>min_length\<close> rows (the least
  chain length) and one column per name, every row of full width; column \<open>i\<close> is the chain
  of the \<open>i\<close>-th name without its first \<open>length - min_length\<close> samples, that is, its
  trailing \<open>min_length\<close> samples, in the order of the names.
\<close>

theorem make_betalike_shape_and_columns:
  assumes "params c \<noteq> []"
    and "\<forall>t \<in> set (params c). get_param c t 1 = Inr (chain t)"
  shows "\<exists>M. make_betalike c = Inr (params c, M)
           \<and> shape M = (Min (set (map (\<lambda>t. length (chain t)) (params c))), length (params c))
           \<and> well_shaped M
           \<and> (\<forall>i < length (params c).
                 get_col M i = Inr (drop (length (chain (params c ! i)) - fst (shape M))
                                         (chain (params c ! i))))"
proof -
  let ?ls = "map (\<lambda>t. length (chain t)) (params c)"
  let ?m = "Min (set ?ls)"
  have lens: "chain_lengths_loop c (params c) = Inr ?ls"
    using assms(2) by (rule chain_lengths_loop_ok)
  have mn: "py_min ?ls = Inr ?m"
    using assms(1) by (simp add: py_min_ok)
  have le: "?m \<le> length (chain t)" if "t \<in> set (params c)" for t
    using that by (intro Min_le) auto
  have "\<exists>M'. fill_loop c (params c) ?m 0 (np_zeros (?m, length ?ls)) = Inr M'
          \<and> ncols M' = ncols (np_zeros (?m, length ?ls) :: real ndarray) \<and> length (rows M') = ?m
          \<and> well_shaped M'
          \<and> (\<forall>j < 0. get_col M' j = get_col (np_zeros (?m, length ?ls)) j)
          \<and> (\<forall>k < length (params c). get_col M' (0 + k) = Inr (tail_slice (chain (params c ! k)) ?m))"
    using assms(2) le by (intro fill_loop_ok) (simp_all add: np_zeros_props)
  then obtain M where M:
    "fill_loop c (params c) ?m 0 (np_zeros (?m, length ?ls)) = Inr M"
    "ncols M = length (params c)" "length (rows M) = ?m" "well_shaped M"
    "\<forall>k < length (params c). get_col M k = Inr (tail_slice (chain (params c ! k)) ?m)"
    by (auto simp: np_zeros_props)
  have run: "make_betalike c = Inr (params c, M)"
    using lens mn M(1) by (simp add: make_betalike_def Let_def on_ok_simps)
  have cols: "get_col M i = Inr (drop (length (chain (params c ! i)) - fst (shape M)) (chain (params c ! i)))"
    if "i < length (params c)" for i
    using M(5) M(3) that le [of "params c ! i"] by (simp add: tail_slice_drop shape_def)
  show ?thesis
  proof (intro exI conjI)
    show "make_betalike c = Inr (params c, M)" by (rule run)
    show "shape M = (?m, length (params c))" using M(2,3) by (simp add: shape_def)
    show "well_shaped M" by (rule M(4))
    show "\<forall>i < length (params c).
            get_col M i = Inr (drop (length (chain (params c ! i)) - fst (shape M))
                                    (chain (params c ! i)))"
      using cols by blast
  qed
qed





theorem make_betalike_shape_and_columns_witness:
  "\<exists>M. make_betalike (stored_core [(1::real, [1, 2, 3]), (2, [4, 5])]) = Inr ([1, 2], M)
     \<and> shape M = (2, 2) \<and> get_col M 0 = Inr [2, 3] \<and> get_col M 1 = Inr [4, 5]"
proof -
  let ?c = "stored_core [(1::real, [1, 2, 3]), (2, [4, 5])]"
  let ?chain = "\<lambda>t::real. if t = 1 then [1, 2, 3] else [4, 5::real]"
  have p: "params ?c = [1, 2]" by (simp add: stored_core_def)
  have h1: "params ?c \<noteq> []" by (simp add: p)
  have h2: "\<forall>t \<in> set (params ?c). get_param ?c t 1 = Inr (?chain t)"
    by (simp add: stored_core_def slice_step_1)
  have m: "Min (set (map (\<lambda>t. length (?chain t)) (params ?c))) = 2"
    by (simp add: p)
  obtain M where M: "make_betalike ?c = Inr (params ?c, M)"
    "shape M = (Min (set (map (\<lambda>t. length (?chain t)) (params ?c))), length (params ?c))"
    "\<forall>i < length (params ?c).
       get_col M i = Inr (drop (length (?chain (params ?c ! i)) - fst (shape M))
                               (?chain (params ?c ! i)))"
    using make_betalike_shape_and_columns [OF h1 h2] by blast
  have s: "shape M = (2, 2)" using M(2) by (simp add: m p)
  have c0: "get_col M 0 = Inr [2, 3]" using M(3) s by (simp add: p)
  have "get_col M (Suc 0) = Inr [4, 5]" using M(3) s by (simp add: p)
  then show ?thesis using M(1) s c0 by (simp add: p)
qed

section \<open>The generic bootstrap\<close>

text \<open>
  C4, as the code has it. When the accessor returns the chain, the autocorrelation
  estimate \<open>t\<close> and the chain thinned by \<open>int(t)\<close>, and that thinned array is not empty
  (or no sample is asked for), \<^verbatim>\<open>bootstrap\<close> returns a draw matrix of shape
  \<open>(num_samples, num_reals)\<close>: one row per sample index and one column per realization.
  Every row has full width, every entry is an element of the thinned array, and only the
  module-level generator has advanced.
\<close>

theorem bootstrap_draw_matrix:
  assumes "get_param c param 1 = Inr chain"
    and "integrated_time E chain = Inr t"
    and "get_param c param (py_int t) = Inr array"
    and "array \<noteq> [] \<or> num_samples * num_reals = 0"
  shows "\<exists>A g'. bootstrap E w c param num_reals num_samples = Inr (A, w\<lparr>rng := g'\<rparr>)
           \<and> shape A = (num_samples, num_reals) \<and> well_shaped A
           \<and> (\<forall>row \<in> set (rows A). set row \<subseteq> set array)"
proof -
  obtain A g' where A: "rng_choice (draw_index E) (rng w) array (num_samples, num_reals) = Inr (A, g')"
    using rng_choice_total [OF assms(4), of "draw_index E" "rng w"] by blast
  have "bootstrap E w c param num_reals num_samples = Inr (A, w\<lparr>rng := g'\<rparr>)"
    using assms(1,2,3) A by (simp add: bootstrap_def on_ok_simps)
  then show ?thesis
    using rng_choice_props [OF A] by blast
qed

theorem bootstrap_draw_matrix_witness:
  "\<exists>A g'. bootstrap (counter_env 2) \<lparr>rng = 1, os_entropy = 0\<rparr>
             (stored_core [(''a'', ramp 6)]) ''a'' 2 3 = Inr (A, \<lparr>rng = g', os_entropy = 0\<rparr>)
     \<and> shape A = (3, 2) \<and> well_shaped A"
proof -
  let ?c = "stored_core [(''a'', ramp 6)]"
  have h1: "get_param ?c ''a'' 1 = Inr (ramp 6)" by code_simp
  have h2: "integrated_time (counter_env 2) (ramp 6) = Inr 2" by (simp add: counter_env_def)
  have h3: "get_param ?c ''a'' (py_int 2) = Inr [0, 2, 4]" by code_simp
  have h4: "[0, 2, 4] \<noteq> [] \<or> 3 * 2 = (0::nat)" by simp
  from bootstrap_draw_matrix [OF h1 h2 h3 h4, of "\<lparr>rng = 1, os_entropy = 0\<rparr>"]
  show ?thesis by auto
qed

text \<open>
  The shape claimed for C4 is \<open>(num_reals, num_samples)\<close>. With two realizations of three
  samples the code returns three rows of two entries.
\<close>

theorem bootstrap_shape_counterexample:
  "bootstrap (counter_env 2) \<lparr>rng = 1, os_entropy = 0\<rparr> (stored_core [(''a'', ramp 6)]) ''a'' 2 3
     = Inr (\<lparr>ncols = 2, rows = [[2, 4], [0, 2], [4, 0]]\<rparr>, \<lparr>rng = 7, os_entropy = 0\<rparr>)
   \<and> shape \<lparr>ncols = 2, rows = [[2, 4], [0, 2], [4, 0 :: real]]\<rparr> \<noteq> (2, 3)"
  by code_simp

section \<open>The Bayes-factor combiner\<close>

subsection \<open>Values inside and outside the range of the doubles\<close>

































subsection \<open>The three scales\<close>




subsection \<open>A scale that is none of the three\<close>




section \<open>The odds-ratio bootstrapper\<close>


section \<open>The thermodynamic integrator\<close>

text \<open>
  C3, as the code has it. Whenever \<^verbatim>\<open>ti_bootstrap\<close> returns, the loop has assembled a
  \<open>num_reals \<times> num_chains\<close> matrix \<open>A\<close> whose column \<open>i\<close> holds, for every realization,
  the mean of that realization's bootstrap draws from column \<open>i\<close> of the input, and the
  returned matrix has the same shape with the order reversed along both axes: its entry
  \<open>(r, j)\<close> is entry \<open>(num_reals - 1 - r, num_chains - 1 - j)\<close> of \<open>A\<close>. The column order
  is exactly reversed, and so is the order of the realizations.
\<close>

theorem ti_bootstrap_reverses_both_axes:
  assumes "ti_bootstrap E w betalike num_chains num_reals = Inr (out, w')"
  shows "\<exists>A g'. ti_assemble E (fst (default_rng E (os_entropy w))) betalike num_chains num_reals
                   = Inr (A, g')
           \<and> shape A = (num_reals, num_chains) \<and> well_shaped A
           \<and> (\<forall>i < num_chains. \<exists>g0 D g1.
                 ti_column_draws E g0 betalike i num_reals = Inr (D, g1)
                 \<and> get_col A i = Inr (map np_mean (rows D)))
           \<and> shape out = (num_reals, num_chains) \<and> well_shaped out
           \<and> (\<forall>r < num_reals. \<forall>j < num_chains.
                 entry out r j = entry A (num_reals - 1 - r) (num_chains - 1 - j))"
proof -
  obtain A g' where A:
    "ti_assemble E (fst (default_rng E (os_entropy w))) betalike num_chains num_reals = Inr (A, g')"
    and out: "out = np_flip A"
    using ti_bootstrap_Inr [OF assms] by blast
  note P = ti_assemble_props [OF A]
  have sz: "length (rows A) = num_reals" "ncols A = num_chains"
    using P(1) by (simp_all add: shape_def)
  note F = np_flip_props [OF P(2)]
  show ?thesis
  proof (intro exI conjI)
    show "ti_assemble E (fst (default_rng E (os_entropy w))) betalike num_chains num_reals
            = Inr (A, g')" by (rule A)
    show "shape A = (num_reals, num_chains)" by (rule P(1))
    show "well_shaped A" by (rule P(2))
    show "\<forall>i < num_chains. \<exists>g0 D g1.
            ti_column_draws E g0 betalike i num_reals = Inr (D, g1)
            \<and> get_col A i = Inr (map np_mean (rows D))" by (rule P(3))
    show "shape out = (num_reals, num_chains)" using F(1) P(1) by (simp add: out)
    show "well_shaped out" using F(2) by (simp add: out)
    show "\<forall>r < num_reals. \<forall>j < num_chains.
            entry out r j = entry A (num_reals - 1 - r) (num_chains - 1 - j)"
      using F(3) sz by (simp add: out)
  qed
qed

theorem ti_bootstrap_reverses_both_axes_witness:
  "\<exists>A g'. ti_assemble (counter_env 1) 0 demo_betalike 2 2 = Inr (A, g')
     \<and> shape A = (2, 2)
     \<and> entry \<lparr>ncols = 2, rows = [[Fin 13, Fin 1], [Fin 12, Fin 0]]\<rparr> 0 0 = entry A 1 1"
proof -
  let ?w = "\<lparr>rng = 100 :: nat, os_entropy = 0 :: nat\<rparr>"
  let ?out = "\<lparr>ncols = 2, rows = [[Fin 13, Fin 1], [Fin 12, Fin 0]]\<rparr>"
  have h: "ti_bootstrap (counter_env 1) ?w demo_betalike 2 2 = Inr (?out, \<lparr>rng = 100, os_entropy = 1\<rparr>)"
    by code_simp
  have g: "fst (default_rng (counter_env 1) (os_entropy ?w)) = 0"
    by (simp add: counter_env_def)
  from ti_bootstrap_reverses_both_axes [OF h] show ?thesis
    unfolding g by fastforce
qed

text \<open>
  C3 as claimed keeps the order of the realizations: the returned entry \<open>(0, 0)\<close> would be
  the assembled entry \<open>(0, 1)\<close>. On two realizations of two columns the assembled matrix
  has the rows \<open>(0, 12)\<close> and \<open>(1, 13)\<close>, and the returned one \<open>(13, 1)\<close> and \<open>(12, 0)\<close>.
\<close>

theorem ti_bootstrap_rows_counterexample:
  "ti_assemble (counter_env 1) 0 demo_betalike 2 2
     = Inr (\<lparr>ncols = 2, rows = [[Fin 0, Fin 12], [Fin 1, Fin 13]]\<rparr>, 4)
   \<and> ti_bootstrap (counter_env 1) \<lparr>rng = 100, os_entropy = 0\<rparr> demo_betalike 2 2
     = Inr (\<lparr>ncols = 2, rows = [[Fin 13, Fin 1], [Fin 12, Fin 0]]\<rparr>, \<lparr>rng = 100, os_entropy = 1\<rparr>)
   \<and> entry \<lparr>ncols = 2, rows = [[Fin 13, Fin 1], [Fin 12, Fin 0]]\<rparr> 0 0
     \<noteq> entry \<lparr>ncols = 2, rows = [[Fin 0, Fin 12], [Fin 1, Fin 13]]\<rparr> 0 (2 - 1 - 0)"
  by code_simp

text \<open>
  C5. In \<^verbatim>\<open>ti_bootstrap\<close>, for every temperature column \<open>i\<close>, and in
  \<^verbatim>\<open>odds_ratio_bootstrap\<close>: whenever the function returns, the draw matrix behind its
  result was drawn by \<^verbatim>\<open>rng.choice\<close> from the whole column (the whole \<^verbatim>\<open>nmodel\<close> chain),
  with \<open>num_reals\<close> rows of \<open>floor(0.1 * length of the thinned array)\<close> entries, the thinned
  array being the column taken with the stride \<open>int(tau)\<close>; every entry drawn is an element
  of the whole column. The thinned array enters through its length only.
\<close>

theorem subsample_from_thinned_draws_from_full:
  "(ti_bootstrap E w betalike num_chains num_reals = Inr (out, w') \<longrightarrow>
      (\<forall>i < num_chains. \<exists>column t trimmed_like g0 D g1.
          get_col betalike i = Inr column \<and> integrated_time E column = Inr t
        \<and> slice_step column (py_int t) = Inr trimmed_like
        \<and> rng_choice (draw_index E) g0 column
             (num_reals, nat \<lfloor>0.1 * real (length trimmed_like)\<rfloor>) = Inr (D, g1)
        \<and> shape D = (num_reals, nat \<lfloor>0.1 * real (length trimmed_like)\<rfloor>)
        \<and> (\<forall>row \<in> set (rows D). set row \<subseteq> set column)
        \<and> get_col (np_flip out) i = Inr (map np_mean (rows D))))
   \<and> (odds_ratio_bootstrap E w hmcore num_reals domains = Inr (res, w'') \<longrightarrow>
      (\<exists>nmodel t thinned_nmodel D g1 ors.
          get_param hmcore ''nmodel'' 1 = Inr nmodel \<and> integrated_time E nmodel = Inr t
        \<and> slice_step nmodel (py_int t) = Inr thinned_nmodel
        \<and> rng_choice (draw_index E) (fst (default_rng E (os_entropy w))) nmodel
             (num_reals, nat \<lfloor>0.1 * real (length thinned_nmodel)\<rfloor>) = Inr (D, g1)
        \<and> shape D = (num_reals, nat \<lfloor>0.1 * real (length thinned_nmodel)\<rfloor>)
        \<and> (\<forall>row \<in> set (rows D). set row \<subseteq> set nmodel)
        \<and> ors_loop domains (rows D) = Inr ors \<and> res = (np_mean ors, np_std ors)))"
proof (intro conjI impI allI)
  fix i
  assume run: "ti_bootstrap E w betalike num_chains num_reals = Inr (out, w')"
    and i: "i < num_chains"
  obtain A g' where A:
    "ti_assemble E (fst (default_rng E (os_entropy w))) betalike num_chains num_reals = Inr (A, g')"
    and out: "out = np_flip A"
    using ti_bootstrap_Inr [OF run] by blast
  obtain g0 D g1 where D: "ti_column_draws E g0 betalike i num_reals = Inr (D, g1)"
    and col: "get_col A i = Inr (map np_mean (rows D))"
    using ti_assemble_props(3) [OF A] i by blast
  obtain column t trimmed_like where c:
    "get_col betalike i = Inr column" "integrated_time E column = Inr t"
    "slice_step column (py_int t) = Inr trimmed_like"
    and ch: "rng_choice (draw_index E) g0 column (num_reals, subsample_size trimmed_like) = Inr (D, g1)"
    using ti_column_draws_Inr [OF D] by blast
  note P = rng_choice_props [OF ch]
  show "\<exists>column t trimmed_like g0 D g1.
          get_col betalike i = Inr column \<and> integrated_time E column = Inr t
        \<and> slice_step column (py_int t) = Inr trimmed_like
        \<and> rng_choice (draw_index E) g0 column
             (num_reals, nat \<lfloor>0.1 * real (length trimmed_like)\<rfloor>) = Inr (D, g1)
        \<and> shape D = (num_reals, nat \<lfloor>0.1 * real (length trimmed_like)\<rfloor>)
        \<and> (\<forall>row \<in> set (rows D). set row \<subseteq> set column)
        \<and> get_col (np_flip out) i = Inr (map np_mean (rows D))"
    using c ch P(1,3) col
    unfolding out np_flip_involution subsample_size_floor by blast
next
  assume run: "odds_ratio_bootstrap E w hmcore num_reals domains = Inr (res, w'')"
  obtain nmodel D g1 ors where n: "get_param hmcore ''nmodel'' 1 = Inr nmodel"
    and D: "odds_ratio_draws E (fst (default_rng E (os_entropy w))) nmodel num_reals = Inr (D, g1)"
    and o: "ors_loop domains (rows D) = Inr ors" "res = (np_mean ors, np_std ors)"
    using odds_ratio_bootstrap_Inr [OF run] by blast
  obtain t thinned_nmodel where c:
    "integrated_time E nmodel = Inr t" "slice_step nmodel (py_int t) = Inr thinned_nmodel"
    and ch: "rng_choice (draw_index E) (fst (default_rng E (os_entropy w))) nmodel
               (num_reals, subsample_size thinned_nmodel) = Inr (D, g1)"
    using odds_ratio_draws_Inr [OF D] by blast
  note P = rng_choice_props [OF ch]
  show "\<exists>nmodel t thinned_nmodel D g1 ors.
          get_param hmcore ''nmodel'' 1 = Inr nmodel \<and> integrated_time E nmodel = Inr t
        \<and> slice_step nmodel (py_int t) = Inr thinned_nmodel
        \<and> rng_choice (draw_index E) (fst (default_rng E (os_entropy w))) nmodel
             (num_reals, nat \<lfloor>0.1 * real (length thinned_nmodel)\<rfloor>) = Inr (D, g1)
        \<and> shape D = (num_reals, nat \<lfloor>0.1 * real (length thinned_nmodel)\<rfloor>)
        \<and> (\<forall>row \<in> set (rows D). set row \<subseteq> set nmodel)
        \<and> ors_loop domains (rows D) = Inr ors \<and> res = (np_mean ors, np_std ors)"
    using n c ch P(1,3) o
    unfolding subsample_size_floor by blast
qed

text \<open>
  In the example the stride is 2, the thinned column holds the ten even numbers below 20,
  and the value drawn from column 0 is 1, which the thinned column does not contain.
\<close>

theorem subsample_from_thinned_draws_from_full_witness:
  "(\<exists>column t trimmed_like g0 D g1.
        get_col demo_ladder 0 = Inr column \<and> integrated_time (counter_env 2) column = Inr t
      \<and> slice_step column (py_int t) = Inr trimmed_like
      \<and> rng_choice (draw_index (counter_env 2)) g0 column
           (1, nat \<lfloor>0.1 * real (length trimmed_like)\<rfloor>) = Inr (D, g1)
      \<and> get_col (np_flip \<lparr>ncols = 2, rows = [[Fin 102, Fin 1]]\<rparr>) 0 = Inr (map np_mean (rows D)))
   \<and> (\<exists>nmodel t thinned_nmodel D g1 ors.
        get_param (stored_core [(''nmodel'', demo_nmodel)]) ''nmodel'' 1 = Inr nmodel
      \<and> integrated_time (counter_env 2) nmodel = Inr t
      \<and> slice_step nmodel (py_int t) = Inr thinned_nmodel
      \<and> rng_choice (draw_index (counter_env 2)) 1 nmodel
           (1, nat \<lfloor>0.1 * real (length thinned_nmodel)\<rfloor>) = Inr (D, g1)
      \<and> ors_loop default_domains (rows D) = Inr ors)
   \<and> ti_column_draws (counter_env 2) 1 demo_ladder 0 1 = Inr (\<lparr>ncols = 1, rows = [[1]]\<rparr>, 2)
   \<and> slice_step (ramp 20) 2 = Inr [0, 2, 4, 6, 8, 10, 12, 14, 16, 18]
   \<and> get_col demo_ladder 0 = Inr (ramp 20)"
proof -
  let ?E = "counter_env 2"
  let ?w = "\<lparr>rng = 100 :: nat, os_entropy = 1 :: nat\<rparr>"
  have d: "fst (default_rng ?E (os_entropy ?w)) = 1" by (simp add: counter_env_def)
  note T = subsample_from_thinned_draws_from_full [of ?E ?w demo_ladder 2 1
      "\<lparr>ncols = 2, rows = [[Fin 102, Fin 1]]\<rparr>" "\<lparr>rng = 100, os_entropy = 2\<rparr>"
      "stored_core [(''nmodel'', demo_nmodel)]" default_domains "(Fin 0, Fin 0)"
      "\<lparr>rng = 100, os_entropy = 2\<rparr>"]
  have t1: "\<forall>i < 2. \<exists>column t trimmed_like g0 D g1.
          get_col demo_ladder i = Inr column \<and> integrated_time ?E column = Inr t
        \<and> slice_step column (py_int t) = Inr trimmed_like
        \<and> rng_choice (draw_index ?E) g0 column
             (1, nat \<lfloor>0.1 * real (length trimmed_like)\<rfloor>) = Inr (D, g1)
        \<and> shape D = (1, nat \<lfloor>0.1 * real (length trimmed_like)\<rfloor>)
        \<and> (\<forall>row \<in> set (rows D). set row \<subseteq> set column)
        \<and> get_col (np_flip \<lparr>ncols = 2, rows = [[Fin 102, Fin 1]]\<rparr>) i = Inr (map np_mean (rows D))"
    using T demo_ti_run by blast
  have t2: "\<exists>nmodel t thinned_nmodel D g1 ors.
          get_param (stored_core [(''nmodel'', demo_nmodel)]) ''nmodel'' 1 = Inr nmodel
        \<and> integrated_time ?E nmodel = Inr t
        \<and> slice_step nmodel (py_int t) = Inr thinned_nmodel
        \<and> rng_choice (draw_index ?E) 1 nmodel
             (1, nat \<lfloor>0.1 * real (length thinned_nmodel)\<rfloor>) = Inr (D, g1)
        \<and> shape D = (1, nat \<lfloor>0.1 * real (length thinned_nmodel)\<rfloor>)
        \<and> (\<forall>row \<in> set (rows D). set row \<subseteq> set nmodel)
        \<and> ors_loop default_domains (rows D) = Inr ors \<and> (Fin 0, Fin 0) = (np_mean ors, np_std ors)"
    using T demo_odds_run unfolding d by blast
  from t1 have "\<exists>column t trimmed_like g0 D g1.
          get_col demo_ladder 0 = Inr column \<and> integrated_time ?E column = Inr t
        \<and> slice_step column (py_int t) = Inr trimmed_like
        \<and> rng_choice (draw_index ?E) g0 column
             (1, nat \<lfloor>0.1 * real (length trimmed_like)\<rfloor>) = Inr (D, g1)
        \<and> get_col (np_flip \<lparr>ncols = 2, rows = [[Fin 102, Fin 1]]\<rparr>) 0 = Inr (map np_mean (rows D))"
    by force
  moreover from t2 have "\<exists>nmodel t thinned_nmodel D g1 ors.
        get_param (stored_core [(''nmodel'', demo_nmodel)]) ''nmodel'' 1 = Inr nmodel
      \<and> integrated_time ?E nmodel = Inr t
      \<and> slice_step nmodel (py_int t) = Inr thinned_nmodel
      \<and> rng_choice (draw_index ?E) 1 nmodel
           (1, nat \<lfloor>0.1 * real (length thinned_nmodel)\<rfloor>) = Inr (D, g1)
      \<and> ors_loop default_domains (rows D) = Inr ors"
    by blast
  ultimately show ?thesis using demo_column_draws by blast
qed

section \<open>The random generators\<close>

text \<open>
  C6, as the code has it. \<^verbatim>\<open>bootstrap\<close> draws from the module-level generator and leaves
  it advanced; it takes no entropy. \<^verbatim>\<open>ti_bootstrap\<close> and \<^verbatim>\<open>odds_ratio_bootstrap\<close> each build
  a generator of their own with \<^verbatim>\<open>np.random.default_rng()\<close> at every call and draw from
  that one only: the module-level generator is handed back as it was, the entropy source
  has been read, and the result does not depend on the state of the module-level generator.
\<close>

theorem generators_used:
  "(bootstrap E w c param num_reals num_samples = Inr (A, w1) \<longrightarrow>
      os_entropy w1 = os_entropy w
      \<and> (\<exists>chain t array.
            get_param c param 1 = Inr chain \<and> integrated_time E chain = Inr t
          \<and> get_param c param (py_int t) = Inr array
          \<and> rng_choice (draw_index E) (rng w) array (num_samples, num_reals) = Inr (A, rng w1)))
   \<and> (ti_bootstrap E w betalike num_chains num_reals = Inr (out, w2) \<longrightarrow>
      rng w2 = rng w \<and> os_entropy w2 = snd (default_rng E (os_entropy w))
      \<and> (\<exists>M g'. ti_assemble E (fst (default_rng E (os_entropy w))) betalike num_chains num_reals
                    = Inr (M, g') \<and> out = np_flip M))
   \<and> (odds_ratio_bootstrap E w hmcore num_reals domains = Inr (res, w3) \<longrightarrow>
      rng w3 = rng w \<and> os_entropy w3 = snd (default_rng E (os_entropy w))
      \<and> (\<exists>nmodel D g' ors.
            get_param hmcore ''nmodel'' 1 = Inr nmodel
          \<and> odds_ratio_draws E (fst (default_rng E (os_entropy w))) nmodel num_reals = Inr (D, g')
          \<and> ors_loop domains (rows D) = Inr ors \<and> res = (np_mean ors, np_std ors)))
   \<and> ti_bootstrap E (w\<lparr>rng := g\<rparr>) betalike num_chains num_reals
       = map_sum id (map_prod id (rng_update (\<lambda>_. g)))
           (ti_bootstrap E w betalike num_chains num_reals)
   \<and> odds_ratio_bootstrap E (w\<lparr>rng := g\<rparr>) hmcore num_reals domains
       = map_sum id (map_prod id (rng_update (\<lambda>_. g)))
           (odds_ratio_bootstrap E w hmcore num_reals domains)"
proof (intro conjI impI)
  assume run: "bootstrap E w c param num_reals num_samples = Inr (A, w1)"
  from bootstrap_Inr [OF run] show "os_entropy w1 = os_entropy w" by auto
  from bootstrap_Inr [OF run]
  show "\<exists>chain t array.
            get_param c param 1 = Inr chain \<and> integrated_time E chain = Inr t
          \<and> get_param c param (py_int t) = Inr array
          \<and> rng_choice (draw_index E) (rng w) array (num_samples, num_reals) = Inr (A, rng w1)"
    by auto
next
  assume run: "ti_bootstrap E w betalike num_chains num_reals = Inr (out, w2)"
  from ti_bootstrap_Inr [OF run] show "rng w2 = rng w" by auto
  from ti_bootstrap_Inr [OF run] show "os_entropy w2 = snd (default_rng E (os_entropy w))" by auto
  from ti_bootstrap_Inr [OF run]
  show "\<exists>M g'. ti_assemble E (fst (default_rng E (os_entropy w))) betalike num_chains num_reals
                    = Inr (M, g') \<and> out = np_flip M" by auto
next
  assume run: "odds_ratio_bootstrap E w hmcore num_reals domains = Inr (res, w3)"
  from odds_ratio_bootstrap_Inr [OF run] show "rng w3 = rng w" by auto
  from odds_ratio_bootstrap_Inr [OF run]
  show "os_entropy w3 = snd (default_rng E (os_entropy w))" by auto
  from odds_ratio_bootstrap_Inr [OF run]
  show "\<exists>nmodel D g' ors.
            get_param hmcore ''nmodel'' 1 = Inr nmodel
          \<and> odds_ratio_draws E (fst (default_rng E (os_entropy w))) nmodel num_reals = Inr (D, g')
          \<and> ors_loop domains (rows D) = Inr ors \<and> res = (np_mean ors, np_std ors)" by blast
next
  show "ti_bootstrap E (w\<lparr>rng := g\<rparr>) betalike num_chains num_reals
       = map_sum id (map_prod id (rng_update (\<lambda>_. g)))
           (ti_bootstrap E w betalike num_chains num_reals)"
    by (rule ti_bootstrap_rng_irrelevant)
next
  show "odds_ratio_bootstrap E (w\<lparr>rng := g\<rparr>) hmcore num_reals domains
       = map_sum id (map_prod id (rng_update (\<lambda>_. g)))
           (odds_ratio_bootstrap E w hmcore num_reals domains)"
    by (rule odds_ratio_bootstrap_rng_irrelevant)
qed

theorem generators_used_witness:
  "(\<exists>chain t array.
       get_param (stored_core [(''a'', ramp 6)]) ''a'' 1 = Inr chain
     \<and> integrated_time (counter_env 2) chain = Inr t
     \<and> get_param (stored_core [(''a'', ramp 6)]) ''a'' (py_int t) = Inr array
     \<and> rng_choice (draw_index (counter_env 2)) 100 array (3, 1)
         = Inr (\<lparr>ncols = 1, rows = [[2], [4], [0]]\<rparr>, 103))
   \<and> (\<exists>M g'. ti_assemble (counter_env 2) 1 demo_ladder 2 1 = Inr (M, g')
         \<and> \<lparr>ncols = 2, rows = [[Fin 102, Fin 1]]\<rparr> = np_flip M)
   \<and> (\<exists>nmodel D g' ors.
         get_param (stored_core [(''nmodel'', demo_nmodel)]) ''nmodel'' 1 = Inr nmodel
       \<and> odds_ratio_draws (counter_env 2) 1 nmodel 1 = Inr (D, g')
       \<and> ors_loop default_domains (rows D) = Inr ors
       \<and> (Fin 0, Fin 0) = (np_mean ors, np_std ors))"
proof -
  let ?E = "counter_env 2"
  let ?w = "\<lparr>rng = 100 :: nat, os_entropy = 1 :: nat\<rparr>"
  have d: "fst (default_rng ?E (os_entropy ?w)) = 1" by (simp add: counter_env_def)
  note T = generators_used [of ?E ?w "stored_core [(''a'', ramp 6)]" "''a''" 1 3
      "\<lparr>ncols = 1, rows = [[2], [4], [0]]\<rparr>" "\<lparr>rng = 103, os_entropy = 1\<rparr>"
      demo_ladder 2 "\<lparr>ncols = 2, rows = [[Fin 102, Fin 1]]\<rparr>" "\<lparr>rng = 100, os_entropy = 2\<rparr>"
      "stored_core [(''nmodel'', demo_nmodel)]" default_domains "(Fin 0, Fin 0)"
      "\<lparr>rng = 100, os_entropy = 2\<rparr>" 0]
  from T demo_bootstrap_run demo_ti_run demo_odds_run show ?thesis
    unfolding d by simp
qed

text \<open>
  C6 as claimed has every draw advance the module-level generator. Here \<^verbatim>\<open>ti_bootstrap\<close>
  draws two values while the module-level generator stays in state 100; the values drawn
  (at the indices 1 and 2) are those of the generator built from the entropy source.
\<close>

theorem ti_bootstrap_own_generator_counterexample:
  "ti_bootstrap (counter_env 2) \<lparr>rng = 100, os_entropy = 1\<rparr> demo_ladder 2 1
     = Inr (\<lparr>ncols = 2, rows = [[Fin 102, Fin 1]]\<rparr>, \<lparr>rng = 100, os_entropy = 2\<rparr>)"
  by (rule demo_ti_run)

section \<open>Division by a zero count\<close>

text \<open>
  C7, as the code has it. The two counts are Python integers, so their quotient raises
  when the second count is zero: if some realization has no sample in the interval of
  domain 1, \<^verbatim>\<open>odds_ratio_bootstrap\<close> raises \<^verbatim>\<open>ZeroDivisionError\<close> and returns neither a mean
  nor a standard deviation. Nothing in the function catches the exception.
\<close>

theorem zero_count_raises:
  assumes "get_param hmcore ''nmodel'' 1 = Inr nmodel"
    and "odds_ratio_draws E (fst (default_rng E (os_entropy w))) nmodel num_reals = Inr (D, g')"
    and "\<exists>row \<in> set (rows D). domain_count (snd domains) row = 0"
  shows "odds_ratio_bootstrap E w hmcore num_reals domains = Inl ZeroDivisionError"
proof -
  obtain lr e' where d: "default_rng E (os_entropy w) = (lr, e')"
    by (cases "default_rng E (os_entropy w)")
  have D: "odds_ratio_draws E lr nmodel num_reals = Inr (D, g')"
    using assms(2) d by simp
  have "take num_reals (rows D) = rows D"
    using odds_ratio_draws_rows [OF D] by simp
  then have "ors_loop domains (take num_reals (rows D)) = Inl ZeroDivisionError"
    using ors_loop_zero_count [OF assms(3)] by simp
  then show ?thesis
    using assms(1) d D by (simp add: odds_ratio_bootstrap_def on_ok_simps)
qed

theorem zero_count_raises_witness:
  "odds_ratio_bootstrap (counter_env 1) \<lparr>rng = 100, os_entropy = 0\<rparr>
       (stored_core [(''nmodel'', replicate 10 0)]) 1 ((- 1, 1), (2, 3))
     = Inl ZeroDivisionError"
proof -
  let ?w = "\<lparr>rng = 100 :: nat, os_entropy = 0 :: nat\<rparr>"
  have h1: "get_param (stored_core [(''nmodel'', replicate 10 0)]) ''nmodel'' 1
              = Inr (replicate 10 0)"
    by (simp add: stored_core_def slice_step_1)
  have h2: "odds_ratio_draws (counter_env 1) (fst (default_rng (counter_env 1) (os_entropy ?w)))
              (replicate 10 0) 1 = Inr (\<lparr>ncols = 1, rows = [[0]]\<rparr>, 1)"
    using demo_zero_draws by (simp add: counter_env_def)
  have h3: "\<exists>row \<in> set (rows \<lparr>ncols = 1, rows = [[0::real]]\<rparr>).
              domain_count (snd ((- 1, 1), (2, 3))) row = 0"
    by (simp add: domain_count_filter)
  from zero_count_raises [OF h1 h2 h3] show ?thesis .
qed

text \<open>
  C7 as claimed has the call return a non-finite mean and standard deviation. With a chain
  of ten zeros and the default domains, the one realization drawn is the sample 0, which
  is not in the interval of domain 1, and the call raises.
\<close>

theorem zero_count_counterexample:
  "odds_ratio_draws (counter_env 1) 0 (replicate 10 0) 1 = Inr (\<lparr>ncols = 1, rows = [[0]]\<rparr>, 1)
   \<and> domain_count (snd default_domains) [0] = 0
   \<and> odds_ratio_bootstrap (counter_env 1) \<lparr>rng = 100, os_entropy = 0\<rparr>
        (stored_core [(''nmodel'', replicate 10 0)]) 1 default_domains
      = Inl ZeroDivisionError"
  using demo_zero_draws demo_zero_run by (simp add: domain_count_filter default_domains_def)

section \<open>The evidence estimate of \<^verbatim>\<open>ti_log_evidence\<close>\<close>

subsection \<open>Grid, interpolation and quadrature on finite values\<close>





















subsection \<open>The returned pair\<close>




end
